theory Spec2Isabelle
  imports Main
begin

section \<open>The request-validation decorator of apps/accounts/decorators.py\<close>

text \<open>
  The module defines one decorator, \<^verbatim>\<open>validate_request\<close>, whose inner functions read
  the Django request (header table \<^verbatim>\<open>META\<close>, form table \<^verbatim>\<open>POST\<close>, query table
  \<^verbatim>\<open>GET\<close>), raise one of the project's exceptions or attach attributes to the request.
  The request is modelled as a record that is passed through and returned updated; every
  \<^verbatim>\<open>raise\<close> is a value \<open>Inl e\<close>. The module is Python 2 code: the result of
  \<^verbatim>\<open>base64.b64decode\<close> is a byte string that is split with a \<^verbatim>\<open>str\<close> separator.
  Header values and decoded payloads are byte strings; the values of the form and query
  tables are unicode strings, whose code points are written as characters here, a character
  from 128 on standing for a code point outside ASCII.
\<close>

subsection \<open>Exceptions\<close>

text \<open>
  Exceptions of \<^verbatim>\<open>proj.exceptions\<close> that the module raises, and the built-in Python
  exceptions that escape from it because no handler of the module catches them.
\<close>

datatype builtin_exception = ValueError | TypeError | AttributeError | UnicodeEncodeError

datatype error =
    ClientCredentialsRequiredException
  | InvalidClientCredentialsException
  | UsernameRequiredException
  | PasswordRequiredException
  | InvalidUserCredentialsException
  | DuplicateUserException
  | Uncaught builtin_exception

fun is_client_credential_error :: "error \<Rightarrow> bool" where
  "is_client_credential_error ClientCredentialsRequiredException = True"
| "is_client_credential_error InvalidClientCredentialsException = True"
| "is_client_credential_error _ = False"

subsection \<open>Values and records\<close>

text \<open>
  \<^verbatim>\<open>account_is_verified\<close> receives either a request string or the constant
  \<^verbatim>\<open>False\<close>; \<open>pyval\<close> keeps the two apart, and \<open>truthy\<close> is Python's truth test on them.
\<close>

datatype pyval = PyStr string | PyBool bool

fun truthy :: "pyval \<Rightarrow> bool" where
  "truthy (PyStr s) = (s \<noteq> [])"
| "truthy (PyBool b) = b"

record oauth_client =
  client_id :: string
  password_hash :: string

record oauth_user =
  email :: string
  password :: string
  first_name :: string
  last_name :: string
  account_is_verified :: pyval

record oauth_scope =
  scope :: string
  is_default :: bool

text \<open>
  The request: the three lookup tables of Django, and the attributes the module reads or
  sets (\<open>None\<close> while an attribute has not been set).
\<close>

record request =
  META :: "string \<rightharpoonup> string"
  POST :: "string \<rightharpoonup> string"
  GET :: "string \<rightharpoonup> string"
  client :: "oauth_client option"
  user :: "oauth_user option"
  account_verified :: "pyval option"
  grant_type :: "string option"
  scopes :: "oauth_scope list option"

text \<open>
  What the module calls into and does not define: the base64 decoder of the standard library
  (\<open>None\<close> when it raises \<^verbatim>\<open>TypeError\<close>), Django's \<^verbatim>\<open>validate_email\<close>, the secret
  check \<^verbatim>\<open>verify_password\<close> of the client model, the field default of
  \<^verbatim>\<open>account_is_verified\<close>, the tables behind \<^verbatim>\<open>OAuthClient.objects\<close>,
  \<^verbatim>\<open>OAuthUser\<close> and \<^verbatim>\<open>OAuthScope.objects\<close>, and the setting
  \<^verbatim>\<open>OAUTH2_SERVER['IGNORE_CLIENT_REQUESTED_SCOPE']\<close>. They are parameters of the model.
  The name \<^verbatim>\<open>ValidationError\<close> that the module imports from the credentials models is
  taken to be Django's exception of that name, the one \<^verbatim>\<open>validate_email\<close> raises.
\<close>

record env =
  b64decode :: "string \<Rightarrow> string option"
  validate_email :: "string \<Rightarrow> bool"
  verify_password :: "oauth_client \<Rightarrow> string \<Rightarrow> bool"
  verified_default :: pyval
  oauth_clients :: "string \<rightharpoonup> oauth_client"
  oauth_users :: "string list"
  oauth_scopes :: "oauth_scope list"
  IGNORE_CLIENT_REQUESTED_SCOPE :: bool

subsection \<open>String helpers of Python\<close>

text \<open>
  \<^verbatim>\<open>s.split(sep)\<close> with a one-character separator and \<^verbatim>\<open>re.split\<close> with an
  alternation of single characters cut at every occurrence of a separator and keep empty
  pieces; the result always has at least one piece.
\<close>

fun split_at :: "(char \<Rightarrow> bool) \<Rightarrow> string \<Rightarrow> string list" where
  "split_at sep [] = [[]]"
| "split_at sep (c # cs) =
     (if sep c then [] # split_at sep cs
      else (case split_at sep cs of
              [] \<Rightarrow> [[c]]
            | w # ws \<Rightarrow> (c # w) # ws))"

text \<open>\<^verbatim>\<open>str.lower\<close> on ASCII letters.\<close>

definition lower_char :: "char \<Rightarrow> char" where
  "lower_char c =
     (case map_of (zip ''ABCDEFGHIJKLMNOPQRSTUVWXYZ'' ''abcdefghijklmnopqrstuvwxyz'') c of
        None \<Rightarrow> c
      | Some l \<Rightarrow> l)"

definition lower :: "string \<Rightarrow> string" where
  "lower s = map lower_char s"

text \<open>
  The arguments of the logging calls are evaluated before the call: a byte-string template is
  formatted with a value. With a byte-string value this always succeeds (lines 74 and 80).
  With a unicode value the value is encoded with the ASCII codec first, and a code point
  outside ASCII raises \<^verbatim>\<open>UnicodeEncodeError\<close>; \<open>format\<close> says whether
  \<^verbatim>\<open>"...{}".format(v)\<close> returns for the unicode value \<open>v\<close>.
\<close>

definition format :: "string \<Rightarrow> bool" where
  "format v = list_all (\<lambda>c. \<not> digit7 c) v"

subsection \<open>Client Authenticator: \<^verbatim>\<open>_extract_client\<close>\<close>

text \<open>
  Lines 73-80. The header, when present, is cut at every colon, semicolon, comma and space
  and unpacked into exactly two names; under the Basic scheme the second one is decoded and
  cut at every colon, again into exactly two names. An unpacking of another number of pieces
  raises \<^verbatim>\<open>ValueError\<close>. The result is the pair of local variables
  \<^verbatim>\<open>client_id, client_secret\<close>, \<open>None\<close> standing for Python's \<^verbatim>\<open>None\<close>.
\<close>

definition authorization_header ::
    "env \<Rightarrow> request \<Rightarrow> error + (string option \<times> string option)" where
  "authorization_header e r =
     (case META r ''HTTP_AUTHORIZATION'' of
        None \<Rightarrow> Inr (None, None)
      | Some auth_header \<Rightarrow>
          (case split_at (\<lambda>c. c \<in> set '':;, '') auth_header of
             [auth_method, auth] \<Rightarrow>
               (if lower auth_method = ''basic'' then
                  (case b64decode e auth of
                     None \<Rightarrow> Inl (Uncaught TypeError)
                   | Some payload \<Rightarrow>
                       (case split_at (\<lambda>c. c = CHR '':'') payload of
                          [cid, csecret] \<Rightarrow> Inr (Some cid, Some csecret)
                        | _ \<Rightarrow> Inl (Uncaught ValueError)))
                else Inr (None, None))
           | _ \<Rightarrow> Inl (Uncaught ValueError)))"

text \<open>Python's \<^verbatim>\<open>not x\<close> on a variable that is \<^verbatim>\<open>None\<close> or a string.\<close>

fun py_not :: "string option \<Rightarrow> bool" where
  "py_not None = True"
| "py_not (Some s) = (s = [])"

text \<open>
  Lines 89-94, the inner \<^verbatim>\<open>try\<close>: both variables are assigned from the query table, or
  \<^verbatim>\<open>ClientCredentialsRequiredException\<close> is raised.
\<close>

definition fallback_GET ::
    "request \<Rightarrow> string option \<times> string option \<Rightarrow> error + (string option \<times> string option)" where
  "fallback_GET r vars =
     (case GET r ''client_id'' of
        None \<Rightarrow> Inl ClientCredentialsRequiredException
      | Some cid \<Rightarrow>
          (case GET r ''client_secret'' of
             None \<Rightarrow> Inl ClientCredentialsRequiredException
           | Some csecret \<Rightarrow> Inr (Some cid, Some csecret)))"

text \<open>
  Lines 83-94. When one of the two variables is falsy, the form table is read: the
  assignment of \<^verbatim>\<open>client_id\<close> happens before the lookup of \<^verbatim>\<open>client_secret\<close> can
  raise \<^verbatim>\<open>KeyError\<close>, so the handler starts from that assignment.
\<close>

definition fallback_POST_GET ::
    "request \<Rightarrow> string option \<times> string option \<Rightarrow> error + (string option \<times> string option)" where
  "fallback_POST_GET r vars =
     (if py_not (fst vars) \<or> py_not (snd vars) then
        (case POST r ''client_id'' of
           None \<Rightarrow> fallback_GET r vars
         | Some cid \<Rightarrow>
             (case POST r ''client_secret'' of
                None \<Rightarrow> fallback_GET r (Some cid, snd vars)
              | Some csecret \<Rightarrow> Inr (Some cid, Some csecret)))
      else Inr vars)"

text \<open>The credentials the function goes on with: lines 70-94.\<close>

definition client_credentials ::
    "env \<Rightarrow> request \<Rightarrow> error + (string option \<times> string option)" where
  "client_credentials e r =
     (case authorization_header e r of
        Inl x \<Rightarrow> Inl x
      | Inr vars \<Rightarrow> fallback_POST_GET r vars)"

text \<open>
  Lines 96-106: the lookup of the client and the check of its secret. When line 96 is
  reached both variables hold strings (lemma \<open>client_credentials_strings\<close> below), so the
  two branches for \<^verbatim>\<open>None\<close> are there for totality only and are never taken.
\<close>

definition check_client ::
    "env \<Rightarrow> request \<Rightarrow> string option \<times> string option \<Rightarrow> error + request" where
  "check_client e r vars =
     (case (case fst vars of None \<Rightarrow> None | Some cid \<Rightarrow> oauth_clients e cid) of
        None \<Rightarrow> Inl InvalidClientCredentialsException
      | Some c \<Rightarrow>
          (case snd vars of
             None \<Rightarrow> Inl InvalidClientCredentialsException
           | Some csecret \<Rightarrow>
               (if \<not> verify_password e c csecret then Inl InvalidClientCredentialsException
                else Inr (r\<lparr>client := Some c\<rparr>))))"

definition extract_client :: "env \<Rightarrow> request \<Rightarrow> error + request" where
  "extract_client e r =
     (case client_credentials e r of
        Inl x \<Rightarrow> Inl x
      | Inr vars \<Rightarrow> check_client e r vars)"

subsection \<open>User Identity Extractor: \<^verbatim>\<open>_extract_username\<close>\<close>

text \<open>
  Modelled from the spec: the class \<^verbatim>\<open>OAuthUser\<close> of \<^verbatim>\<open>apps.credentials.models\<close> is
  not part of the sources. Its \<^verbatim>\<open>validate_unique\<close> is the check that the candidate
  "does not collide with an existing account (by username)"; \<open>True\<close> means that no
  \<^verbatim>\<open>ValidationError\<close> is raised.
\<close>

definition validate_unique :: "env \<Rightarrow> oauth_user \<Rightarrow> bool" where
  "validate_unique e u = (email u \<notin> set (oauth_users e))"

text \<open>Line 151: the constructor call; the flag keeps the default of its field.\<close>

definition OAuthUser :: "env \<Rightarrow> string \<Rightarrow> string \<Rightarrow> string \<Rightarrow> string \<Rightarrow> oauth_user" where
  "OAuthUser e em pw fn ln =
     \<lparr>email = em, password = pw, first_name = fn, last_name = ln,
      account_is_verified = verified_default e\<rparr>"

text \<open>
  Lines 119-159. The username read from the form table is formatted on line 123, the password
  on line 139 or 143, and the username again on line 150, inside the \<^verbatim>\<open>try\<close> whose
  handler catches \<^verbatim>\<open>ValidationError\<close> only. None of the handlers around these lines
  catches \<^verbatim>\<open>UnicodeEncodeError\<close>.
\<close>

definition extract_username :: "env \<Rightarrow> request \<Rightarrow> error + request" where
  "extract_username e r =
     (case (case POST r ''username'' of
              Some u \<Rightarrow> (if format u then Inr u else Inl (Uncaught UnicodeEncodeError))
            | None \<Rightarrow>
                (case GET r ''username'' of
                   Some u \<Rightarrow> Inr u
                 | None \<Rightarrow> Inl UsernameRequiredException)) of
        Inl x \<Rightarrow> Inl x
      | Inr username \<Rightarrow>
          (if \<not> validate_email e username then Inl InvalidUserCredentialsException
           else
             (case (case POST r ''password'' of
                      Some p \<Rightarrow>
                        (if format p then Inr p else Inl (Uncaught UnicodeEncodeError))
                    | None \<Rightarrow>
                        (case GET r ''password'' of
                           Some p \<Rightarrow>
                             (if format p then Inr p else Inl (Uncaught UnicodeEncodeError))
                         | None \<Rightarrow> Inl PasswordRequiredException)) of
                Inl x \<Rightarrow> Inl x
              | Inr pw \<Rightarrow>
                  (if \<not> format username then Inl (Uncaught UnicodeEncodeError)
                   else
                     (let u = OAuthUser e username pw ''No name given'' ''No name given''
                      in if \<not> validate_unique e u then Inl DuplicateUserException
                         else Inr (r\<lparr>user := Some u\<rparr>))))))"

subsection \<open>Profile Attribute Extractor: \<^verbatim>\<open>_extract_firstname\<close>, \<^verbatim>\<open>_extract_lastname\<close>\<close>

text \<open>
  Lines 176-189 and 206-219. A value found in a table is assigned to the attribute of
  \<^verbatim>\<open>request.user\<close> and then formatted for the log (lines 179, 184, 209, 214); the
  placeholder is assigned without formatting. On a request that has no attribute
  \<^verbatim>\<open>user\<close> the assignment raises \<^verbatim>\<open>AttributeError\<close>. The handlers catch
  \<^verbatim>\<open>KeyError\<close> only, so both exceptions leave the function.
\<close>

definition extract_firstname :: "request \<Rightarrow> error + request" where
  "extract_firstname r =
     (case user r of
        None \<Rightarrow> Inl (Uncaught AttributeError)
      | Some u \<Rightarrow>
          (case POST r ''first_name'' of
             Some fn \<Rightarrow>
               (if format fn then Inr (r\<lparr>user := Some (u\<lparr>first_name := fn\<rparr>)\<rparr>)
                else Inl (Uncaught UnicodeEncodeError))
           | None \<Rightarrow>
               (case GET r ''first_name'' of
                  Some fn \<Rightarrow>
                    (if format fn then Inr (r\<lparr>user := Some (u\<lparr>first_name := fn\<rparr>)\<rparr>)
                     else Inl (Uncaught UnicodeEncodeError))
                | None \<Rightarrow>
                    Inr (r\<lparr>user := Some (u\<lparr>first_name := ''No name given''\<rparr>)\<rparr>))))"

definition extract_lastname :: "request \<Rightarrow> error + request" where
  "extract_lastname r =
     (case user r of
        None \<Rightarrow> Inl (Uncaught AttributeError)
      | Some u \<Rightarrow>
          (case POST r ''last_name'' of
             Some ln \<Rightarrow>
               (if format ln then Inr (r\<lparr>user := Some (u\<lparr>last_name := ln\<rparr>)\<rparr>)
                else Inl (Uncaught UnicodeEncodeError))
           | None \<Rightarrow>
               (case GET r ''last_name'' of
                  Some ln \<Rightarrow>
                    (if format ln then Inr (r\<lparr>user := Some (u\<lparr>last_name := ln\<rparr>)\<rparr>)
                     else Inl (Uncaught UnicodeEncodeError))
                | None \<Rightarrow>
                    Inr (r\<lparr>user := Some (u\<lparr>last_name := ''No name given''\<rparr>)\<rparr>))))"

subsection \<open>Account Status Extractor: \<^verbatim>\<open>_extract_active\<close>\<close>

text \<open>
  Lines 234-245. The value of the field is stored as it is; only the branch in which both
  lookups raise \<^verbatim>\<open>KeyError\<close> also sets \<^verbatim>\<open>request.account_verified\<close>.
\<close>

definition extract_active :: "request \<Rightarrow> error + request" where
  "extract_active r =
     (case user r of
        None \<Rightarrow> Inl (Uncaught AttributeError)
      | Some u \<Rightarrow>
          (case POST r ''account_verified'' of
             Some accountVerified \<Rightarrow>
               Inr (r\<lparr>user := Some (u\<lparr>account_is_verified := PyStr accountVerified\<rparr>)\<rparr>)
           | None \<Rightarrow>
               (case GET r ''account_verified'' of
                  Some accountVerified \<Rightarrow>
                    Inr (r\<lparr>user := Some (u\<lparr>account_is_verified := PyStr accountVerified\<rparr>)\<rparr>)
                | None \<Rightarrow>
                    Inr (r\<lparr>user := Some (u\<lparr>account_is_verified := PyBool False\<rparr>),
                           account_verified := Some (PyBool False)\<rparr>))))"

subsection \<open>Scope Resolver: \<^verbatim>\<open>_extract_scope\<close>\<close>

text \<open>
  Lines 258-277. \<^verbatim>\<open>OAuthScope.objects.filter\<close> selects rows of the scope table;
  \<^verbatim>\<open>split(' ')\<close> cuts the field at every space character.
\<close>

definition extract_scope :: "env \<Rightarrow> request \<Rightarrow> error + request" where
  "extract_scope e r =
     (case grant_type r of
        None \<Rightarrow> Inl (Uncaught AttributeError)
      | Some g \<Rightarrow>
          (if g \<notin> set [''client_credentials'', ''password''] then Inr r
           else if IGNORE_CLIENT_REQUESTED_SCOPE e then
             Inr (r\<lparr>scopes := Some (filter is_default (oauth_scopes e))\<rparr>)
           else
             (let names = (case POST r ''scope'' of
                             Some s \<Rightarrow> split_at (\<lambda>c. c = CHR '' '') s
                           | None \<Rightarrow>
                               (case GET r ''scope'' of
                                  Some s \<Rightarrow> split_at (\<lambda>c. c = CHR '' '') s
                                | None \<Rightarrow> []));
                  found = filter (\<lambda>s. scope s \<in> set names) (oauth_scopes e)
              in if length found = 0 then
                   Inr (r\<lparr>scopes := Some (filter is_default (oauth_scopes e))\<rparr>)
                 else Inr (r\<lparr>scopes := Some found\<rparr>))))"

subsection \<open>The orchestrator: \<^verbatim>\<open>decorator\<close>\<close>

text \<open>
  Lines 279-288 are five calls in a row and the call of the wrapped function; the call of
  \<^verbatim>\<open>_extract_scope\<close> on line 286 is commented out. An exception raised by a call ends
  the function. To speak about which calls happen, the model records the name of every
  function it enters; the record is not part of the program's state.
\<close>

datatype stage =
    ClientAuthenticator
  | UserIdentityExtractor
  | AccountStatusExtractor
  | ProfileFirstName
  | ProfileLastName
  | ScopeResolver
  | ProtectedHandler

type_synonym 'a run = "stage list \<times> (error + 'a)"

definition call :: "stage \<Rightarrow> (request \<Rightarrow> error + 'a) \<Rightarrow> request run \<Rightarrow> 'a run" where
  "call name f st =
     (case st of
        (entered, Inl x) \<Rightarrow> (entered, Inl x)
      | (entered, Inr r) \<Rightarrow> (entered @ [name], f r))"

definition decorator :: "env \<Rightarrow> (request \<Rightarrow> error + 'a) \<Rightarrow> request \<Rightarrow> 'a run" where
  "decorator e func request =
     call ProtectedHandler func
       (call ProfileLastName extract_lastname
         (call ProfileFirstName extract_firstname
           (call AccountStatusExtractor extract_active
             (call UserIdentityExtractor (extract_username e)
               (call ClientAuthenticator (extract_client e)
                 ([], Inr request))))))"

subsection \<open>Concrete collaborators for the examples\<close>

text \<open>
  A base64 decoder for strings in canonical form (RFC 4648: the standard alphabet, a length
  that is a multiple of four, at most two padding characters at the end). The decoder of
  Python's standard library returns the same bytes on every string that this one accepts; it
  is used to fill the parameter \<open>b64decode\<close> in the examples below.
\<close>

definition b64_alphabet :: string where
  "b64_alphabet = ''ABCDEFGHIJKLMNOPQRSTUVWXYZabcdefghijklmnopqrstuvwxyz0123456789+/''"

fun index_of :: "char \<Rightarrow> string \<Rightarrow> nat option" where
  "index_of c [] = None"
| "index_of c (x # xs) = (if c = x then Some 0 else map_option Suc (index_of c xs))"

definition sextet :: "nat \<Rightarrow> bool list" where
  "sextet n = map (\<lambda>k. odd (n div 2 ^ k)) [5, 4, 3, 2, 1, 0]"

fun octets :: "bool list \<Rightarrow> string" where
  "octets (b7 # b6 # b5 # b4 # b3 # b2 # b1 # b0 # bs) =
     Char b0 b1 b2 b3 b4 b5 b6 b7 # octets bs"
| "octets _ = []"

definition b64decode_canonical :: "string \<Rightarrow> string option" where
  "b64decode_canonical s =
     (let body = takeWhile (\<lambda>c. c \<noteq> CHR ''='') s;
          pad = dropWhile (\<lambda>c. c \<noteq> CHR ''='') s
      in if length s mod 4 = 0 \<and> pad \<in> set ['''', ''='', ''==''] then
           map_option (\<lambda>ns. octets (concat (map sextet ns)))
             (those (map (\<lambda>c. index_of c b64_alphabet) body))
         else None)"

text \<open>
  A server with one registered client \<open>c1\<close> whose secret is \<open>s3cret\<close>, one registered
  user, three scopes of which \<open>profile\<close> is the default one, and client-requested scopes
  honoured. The e-mail check of the example accepts the strings that contain an at sign.
\<close>

definition example_env :: env where
  "example_env =
     \<lparr>b64decode = b64decode_canonical,
      validate_email = (\<lambda>s. CHR ''@'' \<in> set s),
      verify_password = (\<lambda>c s. password_hash c = s),
      verified_default = PyBool False,
      oauth_clients = [''c1'' \<mapsto> \<lparr>client_id = ''c1'', password_hash = ''s3cret''\<rparr>],
      oauth_users = [''user@example.com''],
      oauth_scopes =
        [\<lparr>scope = ''profile'', is_default = True\<rparr>,
         \<lparr>scope = ''read'', is_default = False\<rparr>,
         \<lparr>scope = ''write'', is_default = False\<rparr>],
      IGNORE_CLIENT_REQUESTED_SCOPE = False\<rparr>"

text \<open>A request with empty tables and no attribute set.\<close>

definition empty_request :: request where
  "empty_request =
     \<lparr>META = Map.empty, POST = Map.empty, GET = Map.empty, client = None, user = None,
      account_verified = None, grant_type = None, scopes = None\<rparr>"

subsection \<open>The specification's vocabulary\<close>

text \<open>
  "Form field first, then query field": the value the specification associates with a
  field name, \<open>None\<close> when the field is absent from both tables.
\<close>

definition field :: "request \<Rightarrow> string \<Rightarrow> string option" where
  "field r k = (case POST r k of Some v \<Rightarrow> Some v | None \<Rightarrow> GET r k)"

text \<open>
  The three credential sources of the specification, each as the pair of id and secret that
  it yields. For the header the specification says: "an Authorization header using the Basic
  scheme -- decode the base64 payload, split once on a single colon into id and secret", the
  header being written \<open>Basic\<close>, a space and the payload. A table yields a pair when it holds
  both fields.
\<close>

definition split_once :: "string \<Rightarrow> (string \<times> string) option" where
  "split_once p =
     (case dropWhile (\<lambda>c. c \<noteq> CHR '':'') p of
        [] \<Rightarrow> None
      | _ # secret \<Rightarrow> Some (takeWhile (\<lambda>c. c \<noteq> CHR '':'') p, secret))"

definition basic_header_pair :: "env \<Rightarrow> request \<Rightarrow> (string \<times> string) option" where
  "basic_header_pair e r =
     (case META r ''HTTP_AUTHORIZATION'' of
        None \<Rightarrow> None
      | Some h \<Rightarrow>
          (if take 6 h = ''Basic '' then
             (case b64decode e (drop 6 h) of
                None \<Rightarrow> None
              | Some p \<Rightarrow> split_once p)
           else None))"

definition table_pair :: "(string \<rightharpoonup> string) \<Rightarrow> (string \<times> string) option" where
  "table_pair t =
     (case t ''client_id'' of
        None \<Rightarrow> None
      | Some i \<Rightarrow> (case t ''client_secret'' of None \<Rightarrow> None | Some s \<Rightarrow> Some (i, s)))"

text \<open>"First source that yields both values wins."\<close>

fun first_source :: "(string \<times> string) option list \<Rightarrow> (string \<times> string) option" where
  "first_source [] = None"
| "first_source (None # srcs) = first_source srcs"
| "first_source (Some p # srcs) = Some p"

text \<open>
  The scope sets of the specification: the default set and the known scopes among a list of
  names.
\<close>

definition default_scopes :: "env \<Rightarrow> oauth_scope list" where
  "default_scopes e = filter is_default (oauth_scopes e)"

definition known_among :: "env \<Rightarrow> string list \<Rightarrow> oauth_scope list" where
  "known_among e names = filter (\<lambda>s. scope s \<in> set names) (oauth_scopes e)"

text \<open>
  "A whitespace-separated list of names": the maximal runs of characters other than space,
  tab, line feed, vertical tab, form feed and carriage return in the scope field. The first
  argument of \<open>words_from\<close> is the run read so far, in reverse.
\<close>

definition whitespace :: "char \<Rightarrow> bool" where
  "whitespace c = (c \<in> set [CHR '' '', CHR 0x09, CHR 0x0A, CHR 0x0B, CHR 0x0C, CHR 0x0D])"

fun words_from :: "string \<Rightarrow> string \<Rightarrow> string list" where
  "words_from run [] = (if run = [] then [] else [rev run])"
| "words_from run (c # cs) =
     (if whitespace c then (if run = [] then words_from [] cs else rev run # words_from [] cs)
      else words_from (c # run) cs)"

definition whitespace_separated_names :: "request \<Rightarrow> string list" where
  "whitespace_separated_names r =
     (case field r ''scope'' of
        None \<Rightarrow> []
      | Some s \<Rightarrow> words_from [] s)"

text \<open>
  "Space-delimited": the pieces of the scope field between one space character and the next,
  empty pieces included; no other character separates names.
\<close>

fun pieces_from :: "string \<Rightarrow> string \<Rightarrow> string list" where
  "pieces_from piece [] = [rev piece]"
| "pieces_from piece (c # cs) =
     (if c = CHR '' '' then rev piece # pieces_from [] cs else pieces_from (c # piece) cs)"

definition space_delimited_names :: "request \<Rightarrow> string list" where
  "space_delimited_names r =
     (case field r ''scope'' of
        None \<Rightarrow> []
      | Some s \<Rightarrow> pieces_from [] s)"

definition pipeline_order :: "stage list" where
  "pipeline_order =
     [ClientAuthenticator, UserIdentityExtractor, AccountStatusExtractor, ProfileFirstName,
      ProfileLastName, ProtectedHandler]"

subsection \<open>Example requests\<close>

definition client_c1 :: oauth_client where
  "client_c1 = \<lparr>client_id = ''c1'', password_hash = ''s3cret''\<rparr>"

definition with_header :: "string \<Rightarrow> request" where
  "with_header h = empty_request\<lparr>META := [''HTTP_AUTHORIZATION'' \<mapsto> h]\<rparr>"

text \<open>
  The header of the sign-up request carries the base64 form of \<open>c1:s3cret\<close>. The next two
  requests add a first name and replace the password by values with a code point outside
  ASCII (\<open>Jos\<close> and e acute; \<open>p\<close>, a umlaut and \<open>ss\<close>).
\<close>

definition signup_request :: request where
  "signup_request =
     (with_header ''Basic YzE6czNjcmV0'')
       \<lparr>POST := [''username'' \<mapsto> ''new@example.com'', ''password'' \<mapsto> ''pw'']\<rparr>"

definition signup_with_first_name :: request where
  "signup_with_first_name =
     (with_header ''Basic YzE6czNjcmV0'')
       \<lparr>POST := [''username'' \<mapsto> ''new@example.com'', ''password'' \<mapsto> ''pw'',
                 ''first_name'' \<mapsto> ''Jos'' @ [CHR 0xE9]]\<rparr>"

definition signup_with_password :: request where
  "signup_with_password =
     (with_header ''Basic YzE6czNjcmV0'')
       \<lparr>POST := [''username'' \<mapsto> ''new@example.com'',
                 ''password'' \<mapsto> ''p'' @ [CHR 0xE4] @ ''ss'']\<rparr>"

text \<open>
  Two requests whose form table holds the credentials of \<open>c1\<close>: one with the header
  \<open>Bearer\<close>, one with a Basic header whose payload decodes to \<open>abc\<close>.
\<close>

definition form_credentials :: "string \<rightharpoonup> string" where
  "form_credentials = [''client_id'' \<mapsto> ''c1'', ''client_secret'' \<mapsto> ''s3cret'']"

definition bearer_and_form :: request where
  "bearer_and_form = (with_header ''Bearer'')\<lparr>POST := form_credentials\<rparr>"

definition no_colon_and_form :: request where
  "no_colon_and_form = (with_header ''Basic YWJj'')\<lparr>POST := form_credentials\<rparr>"

definition candidate :: oauth_user where
  "candidate =
     \<lparr>email = ''new@example.com'', password = ''pw'', first_name = ''No name given'',
      last_name = ''No name given'', account_is_verified = PyBool False\<rparr>"

definition with_candidate :: request where
  "with_candidate = empty_request\<lparr>user := Some candidate\<rparr>"

text \<open>
  Two scope requests: the names \<open>read\<close> and \<open>write\<close> with a space between them, and
  with a tab between them.
\<close>

definition scope_request :: request where
  "scope_request =
     empty_request\<lparr>POST := [''scope'' \<mapsto> ''read write''],
                     grant_type := Some ''client_credentials''\<rparr>"

definition tab_scope_request :: request where
  "tab_scope_request =
     empty_request\<lparr>POST := [''scope'' \<mapsto> ''read'' @ [CHR 0x09] @ ''write''],
                     grant_type := Some ''client_credentials''\<rparr>"

section \<open>Properties\<close>

subsection \<open>Shared lemmas\<close>

lemmas example_defs =
  example_env_def empty_request_def with_header_def client_c1_def signup_request_def
  signup_with_first_name_def signup_with_password_def form_credentials_def
  bearer_and_form_def no_colon_and_form_def candidate_def with_candidate_def
  scope_request_def tab_scope_request_def

lemmas client_defs =
  extract_client_def client_credentials_def authorization_header_def lower_def lower_char_def
  fallback_POST_GET_def fallback_GET_def check_client_def

lemma b64_c1_s3cret: "b64decode_canonical ''YzE6czNjcmV0'' = Some ''c1:s3cret''"
  by (simp add: b64decode_canonical_def b64_alphabet_def sextet_def)

lemma b64_abc: "b64decode_canonical ''YWJj'' = Some ''abc''"
  by (simp add: b64decode_canonical_def b64_alphabet_def sextet_def)

lemma b64_bad_padding: "b64decode_canonical ''YWJ'' = None"
  by (simp add: b64decode_canonical_def)

lemma b64_nope: "b64decode_canonical ''bm9wZTphbnl0aGluZw=='' = Some ''nope:anything''"
  by (simp add: b64decode_canonical_def b64_alphabet_def sextet_def)

lemma b64_wrongsecret:
  "b64decode_canonical ''YzE6d3JvbmdzZWNyZXQ='' = Some ''c1:wrongsecret''"
  by (simp add: b64decode_canonical_def b64_alphabet_def sextet_def)

text \<open>The two fallback steps, in terms of the pairs that the tables yield.\<close>

lemma fallback_GET_cases:
  "fallback_GET r vars =
     (case table_pair (GET r) of
        None \<Rightarrow> Inl ClientCredentialsRequiredException
      | Some (i, s) \<Rightarrow> Inr (Some i, Some s))"
  by (simp add: fallback_GET_def table_pair_def split: option.splits)

lemma fallback_POST_GET_cases:
  "fallback_POST_GET r vars =
     (if py_not (fst vars) \<or> py_not (snd vars) then
        (case first_source [table_pair (POST r), table_pair (GET r)] of
           None \<Rightarrow> Inl ClientCredentialsRequiredException
         | Some (i, s) \<Rightarrow> Inr (Some i, Some s))
      else Inr vars)"
  by (simp add: fallback_POST_GET_def fallback_GET_cases table_pair_def split: option.splits)

text \<open>A header that is taken apart without an exception sets both variables or none.\<close>

lemma authorization_header_shape:
  "authorization_header e r = Inr vars \<Longrightarrow>
     vars = (None, None) \<or> (\<exists>i s. vars = (Some i, Some s))"
  by (auto simp: authorization_header_def split: option.splits list.splits if_splits)

lemma no_header:
  "META r ''HTTP_AUTHORIZATION'' = None \<Longrightarrow> authorization_header e r = Inr (None, None)"
  by (simp add: authorization_header_def)

lemma client_credentials_strings:
  "client_credentials e r = Inr vars \<Longrightarrow> \<exists>i s. vars = (Some i, Some s)"
proof -
  assume c: "client_credentials e r = Inr vars"
  then obtain hv where h: "authorization_header e r = Inr hv"
    by (auto simp: client_credentials_def split: sum.splits)
  from authorization_header_shape [OF h] c h show ?thesis
    by (auto simp: client_credentials_def fallback_POST_GET_cases
        split: option.splits if_splits)
qed

text \<open>
  When the header is absent, or is taken apart without an exception and leaves a variable
  empty, and no table yields a pair, the function raises
  \<^verbatim>\<open>ClientCredentialsRequiredException\<close>.
\<close>

lemma credentials_required:
  "authorization_header e r = Inr vars \<Longrightarrow> py_not (fst vars) \<or> py_not (snd vars) \<Longrightarrow>
   first_source [table_pair (POST r), table_pair (GET r)] = None \<Longrightarrow>
     extract_client e r = Inl ClientCredentialsRequiredException"
  by (simp add: extract_client_def client_credentials_def fallback_POST_GET_cases)

text \<open>Frames: what each stage leaves as it is.\<close>

lemma extract_client_frame:
  "extract_client e r = Inr r' \<Longrightarrow> \<exists>c. r' = r\<lparr>client := Some c\<rparr>"
  by (auto simp: extract_client_def check_client_def split: sum.splits option.splits if_splits)

lemma extract_username_frame:
  "extract_username e r = Inr r' \<Longrightarrow> \<exists>u. r' = r\<lparr>user := Some u\<rparr>"
  by (auto simp: extract_username_def Let_def split: option.splits if_splits sum.splits)

lemma field_client [simp]: "field (r\<lparr>client := c\<rparr>) k = field r k"
  by (simp add: field_def split: option.splits)

lemma field_user [simp]: "field (r\<lparr>user := u\<rparr>) k = field r k"
  by (simp add: field_def split: option.splits)

lemma field_account_verified [simp]: "field (r\<lparr>account_verified := v\<rparr>) k = field r k"
  by (simp add: field_def split: option.splits)

text \<open>The Account Status Extractor on a request that has a user attached.\<close>

lemma extract_active_Inr:
  "user r = Some u \<Longrightarrow>
     extract_active r =
       (case field r ''account_verified'' of
          Some v \<Rightarrow> Inr (r\<lparr>user := Some (u\<lparr>account_is_verified := PyStr v\<rparr>)\<rparr>)
        | None \<Rightarrow>
            Inr (r\<lparr>user := Some (u\<lparr>account_is_verified := PyBool False\<rparr>),
                   account_verified := Some (PyBool False)\<rparr>))"
  by (auto simp: extract_active_def field_def split: option.splits)

text \<open>
  The two profile stages on a request that has a user attached: they return when the value
  of their field, if there is one, is made of ASCII characters, and raise otherwise.
\<close>

lemma extract_firstname_cases:
  "user r = Some u \<Longrightarrow>
     extract_firstname r =
       (case field r ''first_name'' of
          None \<Rightarrow> Inr (r\<lparr>user := Some (u\<lparr>first_name := ''No name given''\<rparr>)\<rparr>)
        | Some v \<Rightarrow>
            (if format v then Inr (r\<lparr>user := Some (u\<lparr>first_name := v\<rparr>)\<rparr>)
             else Inl (Uncaught UnicodeEncodeError)))"
  by (auto simp: extract_firstname_def field_def split: option.splits)

lemma extract_lastname_cases:
  "user r = Some u \<Longrightarrow>
     extract_lastname r =
       (case field r ''last_name'' of
          None \<Rightarrow> Inr (r\<lparr>user := Some (u\<lparr>last_name := ''No name given''\<rparr>)\<rparr>)
        | Some v \<Rightarrow>
            (if format v then Inr (r\<lparr>user := Some (u\<lparr>last_name := v\<rparr>)\<rparr>)
             else Inl (Uncaught UnicodeEncodeError)))"
  by (auto simp: extract_lastname_def field_def split: option.splits)

text \<open>The pieces between spaces are what \<^verbatim>\<open>split(' ')\<close> returns.\<close>

lemma split_at_nonempty: "split_at sep s \<noteq> []"
  by (induction s) (auto split: list.splits)

lemma pieces_from_split_at:
  "pieces_from piece s =
     (rev piece @ hd (split_at (\<lambda>c. c = CHR '' '') s)) # tl (split_at (\<lambda>c. c = CHR '' '') s)"
proof (induction s arbitrary: piece)
  case Nil
  then show ?case by simp
next
  case (Cons c s)
  obtain w ws where "split_at (\<lambda>c. c = CHR '' '') s = w # ws"
    using split_at_nonempty [of "\<lambda>c. c = CHR '' ''" s]
    by (cases "split_at (\<lambda>c. c = CHR '' '') s") auto
  with Cons show ?case by simp
qed

lemma pieces_from_Nil: "pieces_from [] s = split_at (\<lambda>c. c = CHR '' '') s"
  using split_at_nonempty [of "\<lambda>c. c = CHR '' ''" s] by (simp add: pieces_from_split_at)

text \<open>The ways through the orchestrator.\<close>

lemma decorator_client_fails:
  "extract_client e r = Inl x \<Longrightarrow> decorator e func r = ([ClientAuthenticator], Inl x)"
  by (simp add: decorator_def call_def)

lemma decorator_username_fails:
  "extract_client e r = Inr r1 \<Longrightarrow> extract_username e r1 = Inl x \<Longrightarrow>
     decorator e func r = ([ClientAuthenticator, UserIdentityExtractor], Inl x)"
  by (simp add: decorator_def call_def)

lemma decorator_firstname_fails:
  "extract_client e r = Inr r1 \<Longrightarrow> extract_username e r1 = Inr r2 \<Longrightarrow>
   extract_active r2 = Inr r3 \<Longrightarrow> extract_firstname r3 = Inl x \<Longrightarrow>
     decorator e func r =
       ([ClientAuthenticator, UserIdentityExtractor, AccountStatusExtractor, ProfileFirstName],
        Inl x)"
  by (simp add: decorator_def call_def)

lemma decorator_passes:
  "extract_client e r = Inr r1 \<Longrightarrow> extract_username e r1 = Inr r2 \<Longrightarrow>
   extract_active r2 = Inr r3 \<Longrightarrow> extract_firstname r3 = Inr r4 \<Longrightarrow>
   extract_lastname r4 = Inr r5 \<Longrightarrow>
     decorator e func r = (pipeline_order, func r5)"
  by (simp add: decorator_def call_def pipeline_order_def)

text \<open>
  Whatever the stages return, the stages entered are an initial part of the order of lines
  281-288, and the Scope Resolver is not among them.
\<close>

lemma decorator_entered:
  "\<exists>n. fst (decorator e func r) = take n pipeline_order"
proof -
  have "fst (decorator e func r) \<in> set (map (\<lambda>n. take n pipeline_order) [1, 2, 3, 4, 5, 6])"
    by (simp add: decorator_def call_def pipeline_order_def split: sum.splits)
  then show ?thesis by auto
qed

lemma decorator_never_scope: "ScopeResolver \<notin> set (fst (decorator e func r))"
proof -
  from decorator_entered obtain n where "fst (decorator e func r) = take n pipeline_order" ..
  moreover have "ScopeResolver \<notin> set pipeline_order"
    by (simp add: pipeline_order_def)
  ultimately show ?thesis
    by (auto dest: in_set_takeD)
qed

text \<open>The handler is entered exactly when all five stages return.\<close>

lemma decorator_handler_iff:
  "ProtectedHandler \<in> set (fst (decorator e func r)) \<longleftrightarrow>
     (\<exists>r1 r2 r3 r4 r5. extract_client e r = Inr r1 \<and> extract_username e r1 = Inr r2 \<and>
        extract_active r2 = Inr r3 \<and> extract_firstname r3 = Inr r4 \<and>
        extract_lastname r4 = Inr r5)"
  by (auto simp: decorator_def call_def split: sum.splits)

text \<open>
  The User Identity Extractor on a request whose username and password, where present, are
  made of ASCII characters: the five cases in the order of the source.
\<close>

lemma extract_username_cases:
  assumes "\<And>v. field r ''username'' = Some v \<Longrightarrow> format v"
    and "\<And>v. field r ''password'' = Some v \<Longrightarrow> format v"
  shows
    "extract_username e r =
       (case field r ''username'' of
          None \<Rightarrow> Inl UsernameRequiredException
        | Some u \<Rightarrow>
            (if \<not> validate_email e u then Inl InvalidUserCredentialsException
             else
               (case field r ''password'' of
                  None \<Rightarrow> Inl PasswordRequiredException
                | Some p \<Rightarrow>
                    (if u \<in> set (oauth_users e) then Inl DuplicateUserException
                     else
                       Inr (r\<lparr>user := Some \<lparr>email = u, password = p,
                         first_name = ''No name given'', last_name = ''No name given'',
                         account_is_verified = verified_default e\<rparr>\<rparr>)))))"
  using assms
  by (auto simp: extract_username_def field_def OAuthUser_def validate_unique_def
      split: option.splits)

text \<open>The example requests, stage by stage.\<close>

lemma signup_client:
  "extract_client example_env signup_request = Inr (signup_request\<lparr>client := Some client_c1\<rparr>)"
  by (simp add: client_defs example_defs b64_c1_s3cret)

lemma signup_username:
  "extract_username example_env (signup_request\<lparr>client := Some client_c1\<rparr>) =
     Inr (signup_request\<lparr>client := Some client_c1, user := Some candidate\<rparr>)"
  by (simp add: extract_username_def OAuthUser_def validate_unique_def format_def example_defs)

lemma no_colon_client:
  "extract_client example_env (with_header ''Basic YWJj'') = Inl (Uncaught ValueError)"
  by (simp add: client_defs example_defs b64_abc)

lemma empty_request_client:
  "extract_client example_env empty_request = Inl ClientCredentialsRequiredException"
  by (simp add: client_defs example_defs)

text \<open>
  With values made of ASCII characters the sign-up request passes all five stages and reaches
  the handler.
\<close>

lemma signup_passes:
  "fst (decorator example_env func signup_request) = pipeline_order"
proof -
  have a: "extract_active (signup_request\<lparr>client := Some client_c1, user := Some candidate\<rparr>) =
      Inr (signup_request\<lparr>client := Some client_c1, user := Some candidate,
        account_verified := Some (PyBool False)\<rparr>)"
    by (simp add: extract_active_def example_defs)
  have f: "extract_firstname (signup_request\<lparr>client := Some client_c1, user := Some candidate,
        account_verified := Some (PyBool False)\<rparr>) =
      Inr (signup_request\<lparr>client := Some client_c1, user := Some candidate,
        account_verified := Some (PyBool False)\<rparr>)"
    by (simp add: extract_firstname_def example_defs)
  have l: "extract_lastname (signup_request\<lparr>client := Some client_c1, user := Some candidate,
        account_verified := Some (PyBool False)\<rparr>) =
      Inr (signup_request\<lparr>client := Some client_c1, user := Some candidate,
        account_verified := Some (PyBool False)\<rparr>)"
    by (simp add: extract_lastname_def example_defs)
  show ?thesis
    by (simp add: decorator_passes [OF signup_client signup_username a f l])
qed

subsection \<open>The orchestrator\<close>

text \<open>
  Claim C1. The orchestrator should enter its stages in the order Client Authenticator, User
  Identity Extractor, Account Status Extractor, Profile first name, Profile last name, with
  only the two required stages able to end the run, and should call the protected handler
  exactly when both required stages succeed. The order holds (lemmas \<open>decorator_entered\<close>
  and \<open>decorator_never_scope\<close>), but the handler is not always reached: for the sign-up
  request whose form table also holds the first name \<open>Jos\<close> followed by e acute, both
  required stages succeed, and the formatting on line 179 then raises
  \<^verbatim>\<open>UnicodeEncodeError\<close> in the first profile stage, so the run ends there without
  the handler.
\<close>

theorem optional_stage_error_skips_handler:
  "extract_client example_env signup_with_first_name =
     Inr (signup_with_first_name\<lparr>client := Some client_c1\<rparr>) \<and>
   extract_username example_env (signup_with_first_name\<lparr>client := Some client_c1\<rparr>) =
     Inr (signup_with_first_name\<lparr>client := Some client_c1, user := Some candidate\<rparr>) \<and>
   decorator example_env func signup_with_first_name =
     ([ClientAuthenticator, UserIdentityExtractor, AccountStatusExtractor, ProfileFirstName],
      Inl (Uncaught UnicodeEncodeError)) \<and>
   ProtectedHandler \<notin> set (fst (decorator example_env func signup_with_first_name))"
proof -
  have c: "extract_client example_env signup_with_first_name =
      Inr (signup_with_first_name\<lparr>client := Some client_c1\<rparr>)"
    by (simp add: client_defs example_defs b64_c1_s3cret)
  have u: "extract_username example_env (signup_with_first_name\<lparr>client := Some client_c1\<rparr>) =
      Inr (signup_with_first_name\<lparr>client := Some client_c1, user := Some candidate\<rparr>)"
    by (simp add: extract_username_def OAuthUser_def validate_unique_def format_def example_defs)
  have a: "extract_active
        (signup_with_first_name\<lparr>client := Some client_c1, user := Some candidate\<rparr>) =
      Inr (signup_with_first_name\<lparr>client := Some client_c1, user := Some candidate,
        account_verified := Some (PyBool False)\<rparr>)"
    by (simp add: extract_active_def example_defs)
  have f: "extract_firstname
        (signup_with_first_name\<lparr>client := Some client_c1, user := Some candidate,
          account_verified := Some (PyBool False)\<rparr>) =
      Inl (Uncaught UnicodeEncodeError)"
    by (simp add: extract_firstname_def format_def example_defs)
  note d = decorator_firstname_fails [OF c u a f, of func]
  from c u d show ?thesis by simp
qed

subsection \<open>The Client Authenticator\<close>

text \<open>
  Claim C2. A header that is present and cannot be decoded as id and secret under the Basic
  scheme should end the client extraction with one of the two client-credential exceptions.
  The function does not do so: for the header \<open>Basic YWJj\<close>, whose payload decodes to
  \<open>abc\<close> without a colon, the unpacking of the split on line 79 raises \<^verbatim>\<open>ValueError\<close>,
  and for the header \<open>Basic YWJ\<close>, whose payload is not valid base64, the decoder raises
  \<^verbatim>\<open>TypeError\<close>; neither is caught.
\<close>

theorem undecodable_header_uncaught:
  "extract_client example_env (with_header ''Basic YWJj'') = Inl (Uncaught ValueError) \<and>
   extract_client example_env (with_header ''Basic YWJ'') = Inl (Uncaught TypeError) \<and>
   \<not> is_client_credential_error (Uncaught ValueError) \<and>
   \<not> is_client_credential_error (Uncaught TypeError)"
  by (simp add: client_defs example_defs b64_abc b64_bad_padding)

text \<open>
  Claim C3. The credentials should come from the first source, in the order Basic header,
  form table, query table, that yields both an id and a secret. For the two requests whose
  form table holds the id and secret of the registered client, one with the header
  \<open>Bearer\<close> and one with the header \<open>Basic YWJj\<close>, the header yields no pair and the
  form table is the first source that yields one; the function does not use it, because the
  unpacking on line 76, respectively line 79, raises \<^verbatim>\<open>ValueError\<close> before the tables
  are read. The same form table without a header authenticates the client.
\<close>

theorem unreadable_header_hides_form:
  "first_source
     [basic_header_pair example_env bearer_and_form, table_pair (POST bearer_and_form),
      table_pair (GET bearer_and_form)] = Some (''c1'', ''s3cret'') \<and>
   extract_client example_env bearer_and_form = Inl (Uncaught ValueError) \<and>
   first_source
     [basic_header_pair example_env no_colon_and_form, table_pair (POST no_colon_and_form),
      table_pair (GET no_colon_and_form)] = Some (''c1'', ''s3cret'') \<and>
   extract_client example_env no_colon_and_form = Inl (Uncaught ValueError) \<and>
   extract_client example_env (empty_request\<lparr>POST := form_credentials\<rparr>) =
     Inr (empty_request\<lparr>POST := form_credentials, client := Some client_c1\<rparr>)"
proof -
  have "basic_header_pair example_env bearer_and_form = None"
    "basic_header_pair example_env no_colon_and_form = None"
    by (simp_all add: basic_header_pair_def split_once_def example_defs b64_abc)
  moreover have "table_pair (POST bearer_and_form) = Some (''c1'', ''s3cret'')"
    "table_pair (POST no_colon_and_form) = Some (''c1'', ''s3cret'')"
    by (simp_all add: table_pair_def example_defs)
  moreover have "extract_client example_env bearer_and_form = Inl (Uncaught ValueError)"
    by (simp add: client_defs example_defs)
  moreover have "extract_client example_env no_colon_and_form = Inl (Uncaught ValueError)"
    by (simp add: client_defs example_defs b64_abc)
  moreover have "extract_client example_env (empty_request\<lparr>POST := form_credentials\<rparr>) =
     Inr (empty_request\<lparr>POST := form_credentials, client := Some client_c1\<rparr>)"
    by (simp add: client_defs example_defs)
  ultimately show ?thesis by simp
qed

text \<open>
  Claim C4. A request in which no source yields both a client id and a client secret
  should make the pipeline fail with \<^verbatim>\<open>ClientCredentialsRequiredException\<close>. For the request
  whose only content is the header \<open>Basic YWJj\<close> (the payload decodes to \<open>abc\<close>, so
  neither the header nor a table yields a pair) the pipeline ends in the Client Authenticator
  with an uncaught \<^verbatim>\<open>ValueError\<close> instead.
\<close>

theorem no_credentials_uncaught:
  "first_source
     [basic_header_pair example_env (with_header ''Basic YWJj''),
      table_pair (POST (with_header ''Basic YWJj'')),
      table_pair (GET (with_header ''Basic YWJj''))] = None \<and>
   decorator example_env func (with_header ''Basic YWJj'') =
     ([ClientAuthenticator], Inl (Uncaught ValueError))"
proof -
  have "basic_header_pair example_env (with_header ''Basic YWJj'') = None"
    by (simp add: basic_header_pair_def split_once_def example_defs b64_abc)
  moreover have "table_pair (POST (with_header ''Basic YWJj'')) = None"
    "table_pair (GET (with_header ''Basic YWJj'')) = None"
    by (simp_all add: table_pair_def example_defs)
  ultimately show ?thesis
    using decorator_client_fails [OF no_colon_client, of func] by simp
qed

text \<open>
  Claim C5. Take two requests that both yield an id and a secret, the first naming a client
  that is not in the store, the second a client that is in the store with a secret that does
  not verify. Both end the Client Authenticator with \<^verbatim>\<open>InvalidClientCredentialsException\<close>,
  and the two runs of the pipeline have the same outcome.
\<close>

theorem unknown_client_same_as_wrong_secret:
  assumes "client_credentials e r1 = Inr (Some i1, Some s1)"
    and "oauth_clients e i1 = None"
    and "client_credentials e r2 = Inr (Some i2, Some s2)"
    and "oauth_clients e i2 = Some c"
    and "\<not> verify_password e c s2"
  shows "extract_client e r1 = Inl InvalidClientCredentialsException \<and>
         extract_client e r2 = Inl InvalidClientCredentialsException \<and>
         decorator e func r1 = decorator e func r2"
proof -
  from assms(1,2) have 1: "extract_client e r1 = Inl InvalidClientCredentialsException"
    by (simp add: extract_client_def check_client_def)
  from assms(3,4,5) have 2: "extract_client e r2 = Inl InvalidClientCredentialsException"
    by (simp add: extract_client_def check_client_def)
  from decorator_client_fails [OF 1, of func] decorator_client_fails [OF 2, of func] 1 2
  show ?thesis by simp
qed

theorem unknown_client_same_as_wrong_secret_witness:
  "extract_client example_env (with_header ''Basic bm9wZTphbnl0aGluZw=='') =
     Inl InvalidClientCredentialsException \<and>
   extract_client example_env (with_header ''Basic YzE6d3JvbmdzZWNyZXQ='') =
     Inl InvalidClientCredentialsException \<and>
   decorator example_env (Inr :: request \<Rightarrow> error + request)
       (with_header ''Basic bm9wZTphbnl0aGluZw=='') =
     decorator example_env Inr (with_header ''Basic YzE6d3JvbmdzZWNyZXQ='')"
proof -
  have 1: "client_credentials example_env (with_header ''Basic bm9wZTphbnl0aGluZw=='') =
      Inr (Some ''nope'', Some ''anything'')"
    by (simp add: client_defs example_defs b64_nope)
  have 2: "oauth_clients example_env ''nope'' = None"
    by (simp add: example_defs)
  have 3: "client_credentials example_env (with_header ''Basic YzE6d3JvbmdzZWNyZXQ='') =
      Inr (Some ''c1'', Some ''wrongsecret'')"
    by (simp add: client_defs example_defs b64_wrongsecret)
  have 4: "oauth_clients example_env ''c1'' = Some client_c1"
    by (simp add: example_defs)
  have 5: "\<not> verify_password example_env client_c1 ''wrongsecret''"
    by (simp add: example_defs)
  show ?thesis
    by (rule unknown_client_same_as_wrong_secret [OF 1 2 3 4 5])
qed

subsection \<open>The User Identity Extractor\<close>

text \<open>
  Claim C6. On a request that has passed the Client Authenticator, the User Identity
  Extractor should settle by the cases username absent, username not an e-mail address,
  password absent, user exists, and otherwise succeed with a candidate. The sign-up request
  whose password is \<open>p\<close>, a umlaut and \<open>ss\<close> passes the Client Authenticator, has a
  username that passes the e-mail check and names no existing user, and has a password, so
  the last case applies; the function raises \<^verbatim>\<open>UnicodeEncodeError\<close> instead, from the
  formatting of the password on line 139.
\<close>

theorem non_ascii_password_uncaught:
  "extract_client example_env signup_with_password =
     Inr (signup_with_password\<lparr>client := Some client_c1\<rparr>) \<and>
   field signup_with_password ''username'' = Some ''new@example.com'' \<and>
   validate_email example_env ''new@example.com'' \<and>
   field signup_with_password ''password'' = Some (''p'' @ [CHR 0xE4] @ ''ss'') \<and>
   ''new@example.com'' \<notin> set (oauth_users example_env) \<and>
   extract_username example_env (signup_with_password\<lparr>client := Some client_c1\<rparr>) =
     Inl (Uncaught UnicodeEncodeError)"
proof -
  have "extract_client example_env signup_with_password =
      Inr (signup_with_password\<lparr>client := Some client_c1\<rparr>)"
    by (simp add: client_defs example_defs b64_c1_s3cret)
  moreover have "field signup_with_password ''username'' = Some ''new@example.com''"
    "field signup_with_password ''password'' = Some (''p'' @ [CHR 0xE4] @ ''ss'')"
    by (simp_all add: field_def example_defs)
  moreover have "validate_email example_env ''new@example.com''"
    "''new@example.com'' \<notin> set (oauth_users example_env)"
    by (simp_all add: example_defs)
  moreover have
    "extract_username example_env (signup_with_password\<lparr>client := Some client_c1\<rparr>) =
      Inl (Uncaught UnicodeEncodeError)"
    by (simp add: extract_username_def format_def example_defs)
  ultimately show ?thesis by simp
qed

subsection \<open>The Scope Resolver\<close>

text \<open>
  Claim C7, as stated: with grant type \<open>client_credentials\<close> or \<open>password\<close> and
  client-requested scopes honoured, the scopes are the known scopes among the
  whitespace-separated requested names when there is one. This fails for the scope field
  that holds \<open>read\<close>, a tab and \<open>write\<close>: its whitespace-separated names are \<open>read\<close>
  and \<open>write\<close>, both known, yet the function resolves to the default set, which is the
  scope \<open>profile\<close>.
\<close>

theorem whitespace_scope_counterexample:
  "grant_type tab_scope_request = Some ''client_credentials'' \<and>
   \<not> IGNORE_CLIENT_REQUESTED_SCOPE example_env \<and>
   whitespace_separated_names tab_scope_request = [''read'', ''write''] \<and>
   known_among example_env (whitespace_separated_names tab_scope_request) =
     [\<lparr>scope = ''read'', is_default = False\<rparr>, \<lparr>scope = ''write'', is_default = False\<rparr>] \<and>
   extract_scope example_env tab_scope_request =
     Inr (tab_scope_request\<lparr>scopes := Some [\<lparr>scope = ''profile'', is_default = True\<rparr>]\<rparr>)"
proof -
  have w: "whitespace_separated_names tab_scope_request = [''read'', ''write'']"
    by (simp add: whitespace_separated_names_def field_def whitespace_def example_defs)
  have "known_among example_env [''read'', ''write''] =
     [\<lparr>scope = ''read'', is_default = False\<rparr>, \<lparr>scope = ''write'', is_default = False\<rparr>]"
    by (simp add: known_among_def example_defs)
  moreover have "extract_scope example_env tab_scope_request =
     Inr (tab_scope_request\<lparr>scopes := Some [\<lparr>scope = ''profile'', is_default = True\<rparr>]\<rparr>)"
    by (simp add: extract_scope_def example_defs)
  moreover have "grant_type tab_scope_request = Some ''client_credentials''"
    "\<not> IGNORE_CLIENT_REQUESTED_SCOPE example_env"
    by (simp_all add: example_defs)
  ultimately show ?thesis by (simp add: w)
qed

text \<open>
  Claim C7, amended. When the grant type is \<open>client_credentials\<close> or \<open>password\<close>, the
  Scope Resolver sets the scopes to the default set if the server ignores client-requested
  scopes, otherwise to the known scopes among the space-delimited requested names (the
  pieces of the scope field, form table first, between single space characters; no other
  whitespace separates names) if there is one, otherwise to the default set. For every other
  grant type it returns the request as it received it.
\<close>

theorem space_delimited_scope_resolution:
  assumes "grant_type r = Some g"
  shows
    "(g \<in> {''client_credentials'', ''password''} \<longrightarrow>
        extract_scope e r =
          Inr (r\<lparr>scopes := Some
            (if IGNORE_CLIENT_REQUESTED_SCOPE e then default_scopes e
             else if known_among e (space_delimited_names r) \<noteq> []
               then known_among e (space_delimited_names r)
             else default_scopes e)\<rparr>)) \<and>
     (g \<notin> {''client_credentials'', ''password''} \<longrightarrow> extract_scope e r = Inr r)"
proof -
  have n: "(case POST r ''scope'' of
              Some s \<Rightarrow> split_at (\<lambda>c. c = CHR '' '') s
            | None \<Rightarrow>
                (case GET r ''scope'' of
                   Some s \<Rightarrow> split_at (\<lambda>c. c = CHR '' '') s
                 | None \<Rightarrow> [])) = space_delimited_names r"
    by (simp add: space_delimited_names_def field_def pieces_from_Nil split: option.splits)
  show ?thesis
    unfolding extract_scope_def n
    by (simp add: assms Let_def known_among_def default_scopes_def)
qed

theorem space_delimited_scope_resolution_witness:
  "grant_type scope_request = Some ''client_credentials'' \<and>
   extract_scope example_env scope_request =
     Inr (scope_request\<lparr>scopes := Some
       [\<lparr>scope = ''read'', is_default = False\<rparr>, \<lparr>scope = ''write'', is_default = False\<rparr>]\<rparr>) \<and>
   extract_scope example_env (scope_request\<lparr>grant_type := Some ''authorization_code''\<rparr>) =
     Inr (scope_request\<lparr>grant_type := Some ''authorization_code''\<rparr>)"
proof -
  have g: "grant_type scope_request = Some ''client_credentials''"
    by (simp add: example_defs)
  have k: "known_among example_env (space_delimited_names scope_request) =
      [\<lparr>scope = ''read'', is_default = False\<rparr>, \<lparr>scope = ''write'', is_default = False\<rparr>]"
    by (simp add: known_among_def space_delimited_names_def field_def example_defs)
  have i: "\<not> IGNORE_CLIENT_REQUESTED_SCOPE example_env"
    by (simp add: example_defs)
  from space_delimited_scope_resolution [OF g, of example_env] k i
  have 1: "extract_scope example_env scope_request =
     Inr (scope_request\<lparr>scopes := Some
       [\<lparr>scope = ''read'', is_default = False\<rparr>, \<lparr>scope = ''write'', is_default = False\<rparr>]\<rparr>)"
    by simp
  have "grant_type (scope_request\<lparr>grant_type := Some ''authorization_code''\<rparr>) =
      Some ''authorization_code''"
    by simp
  from space_delimited_scope_resolution [OF this, of example_env]
  have 2: "extract_scope example_env (scope_request\<lparr>grant_type := Some ''authorization_code''\<rparr>) =
     Inr (scope_request\<lparr>grant_type := Some ''authorization_code''\<rparr>)"
    by simp
  from g 1 2 show ?thesis by simp
qed

subsection \<open>The optional stages\<close>

text \<open>
  Claim C8. The Profile Attribute Extractor should never fail. On the request that carries a
  user candidate and whose form table holds the name \<open>Jos\<close> followed by e acute as first
  name, respectively as last name, the formatting on line 179, respectively line 209, raises
  \<^verbatim>\<open>UnicodeEncodeError\<close>, which the handler for \<^verbatim>\<open>KeyError\<close> does not catch. For names
  made of ASCII characters, and for absent names, the two stages do what the claim says
  (lemmas \<open>extract_firstname_cases\<close> and \<open>extract_lastname_cases\<close>).
\<close>

theorem non_ascii_name_uncaught:
  "user (with_candidate\<lparr>POST := [''first_name'' \<mapsto> ''Jos'' @ [CHR 0xE9]]\<rparr>) = Some candidate \<and>
   extract_firstname (with_candidate\<lparr>POST := [''first_name'' \<mapsto> ''Jos'' @ [CHR 0xE9]]\<rparr>) =
     Inl (Uncaught UnicodeEncodeError) \<and>
   user (with_candidate\<lparr>POST := [''last_name'' \<mapsto> ''Jos'' @ [CHR 0xE9]]\<rparr>) = Some candidate \<and>
   extract_lastname (with_candidate\<lparr>POST := [''last_name'' \<mapsto> ''Jos'' @ [CHR 0xE9]]\<rparr>) =
     Inl (Uncaught UnicodeEncodeError)"
  by (simp add: extract_firstname_def extract_lastname_def format_def example_defs)

text \<open>
  Claim C9. On a request that carries a user candidate, the Account Status Extractor does
  not raise. The verified flag of the candidate becomes the value of the field
  \<open>account_verified\<close>, form table first and then query table, and \<^verbatim>\<open>False\<close> when the
  field is in neither table.
\<close>

theorem account_status_never_fails:
  assumes "user r = Some u"
  shows
    "\<exists>r'. extract_active r = Inr r' \<and>
       user r' = Some (u\<lparr>account_is_verified :=
         (case field r ''account_verified'' of
            None \<Rightarrow> PyBool False
          | Some v \<Rightarrow> PyStr v)\<rparr>)"
  by (simp add: extract_active_Inr [OF assms] split: option.splits)

theorem account_status_never_fails_witness:
  "user with_candidate = Some candidate \<and>
   (\<exists>r'. extract_active with_candidate = Inr r' \<and>
      map_option account_is_verified (user r') = Some (PyBool False))"
proof -
  have u: "user with_candidate = Some candidate"
    by (simp add: example_defs)
  have f: "field with_candidate ''account_verified'' = None"
    by (simp add: field_def example_defs)
  from account_status_never_fails [OF u] f u show ?thesis
    by auto
qed

text \<open>
  Claim C10. When the field \<open>account_verified\<close> is present with the value \<open>v\<close>, the
  verified flag of the candidate is the string \<open>v\<close> itself: it is never the constant
  \<^verbatim>\<open>False\<close>, and Python's truth test on it holds exactly when \<open>v\<close> is not empty, so
  also for \<open>false\<close> and \<open>0\<close>.
\<close>

theorem verified_flag_verbatim:
  assumes "user r = Some u" and "field r ''account_verified'' = Some v"
  shows
    "\<exists>r' u'. extract_active r = Inr r' \<and> user r' = Some u' \<and>
       account_is_verified u' = PyStr v \<and>
       account_is_verified u' \<noteq> PyBool False \<and>
       truthy (account_is_verified u') = (v \<noteq> [])"
  by (simp add: extract_active_Inr [OF assms(1)] assms(2))

theorem verified_flag_verbatim_witness:
  "user (with_candidate\<lparr>POST := [''account_verified'' \<mapsto> ''false'']\<rparr>) = Some candidate \<and>
   field (with_candidate\<lparr>POST := [''account_verified'' \<mapsto> ''false'']\<rparr>) ''account_verified'' =
     Some ''false'' \<and>
   (\<exists>r' u'. extract_active (with_candidate\<lparr>POST := [''account_verified'' \<mapsto> ''false'']\<rparr>) =
        Inr r' \<and> user r' = Some u' \<and> account_is_verified u' = PyStr ''false'' \<and>
        truthy (account_is_verified u'))"
proof -
  have u: "user (with_candidate\<lparr>POST := [''account_verified'' \<mapsto> ''false'']\<rparr>) = Some candidate"
    by (simp add: example_defs)
  have f: "field (with_candidate\<lparr>POST := [''account_verified'' \<mapsto> ''false'']\<rparr>)
      ''account_verified'' = Some ''false''"
    by (simp add: field_def)
  from verified_flag_verbatim [OF u f] u f show ?thesis
    by auto
qed

end
